theory Spec2Isabelle
  imports Main
begin

section \<open>json-versioned: the versioned codec of \<^verbatim>\<open>src/index.ts\<close>\<close>

text \<open>
  The development embeds \<^verbatim>\<open>createVersioned\<close> and the methods of the object it returns:
  the migration registry (\<^verbatim>\<open>_migrations\<close>, a \<^verbatim>\<open>Map<number, MigrationFn>\<close>), the current
  version (\<^verbatim>\<open>_version\<close>), registration through \<^verbatim>\<open>migrations.toVersion(to).withTransform(fn)\<close>
  and \<^verbatim>\<open>addMigration\<close>, \<^verbatim>\<open>versionedSerialize\<close>, \<^verbatim>\<open>versionedDeserialize\<close> and the forward
  walk \<^verbatim>\<open>_applyMigrations\<close>.

  Conventions of the embedding:
  \<^item> a JavaScript number is the \<^typ>\<open>int\<close> it denotes: versions are integers, and
    non-integral numbers, NaN and magnitudes of \<open>2 ^ 1024\<close> and more are outside the
    model. A JavaScript number is a binary64 floating point number, so above \<open>2 ^ 53\<close>
    not every integer is one: the two arithmetic expressions of the source,
    \<^verbatim>\<open>x - 1\<close> and \<^verbatim>\<open>version++\<close>, round their exact result to the nearest binary64;
  \<^item> a loop that may run forever returns an \<^typ>\<open>'a option\<close>, and \<open>None\<close> is the run that
    never returns;
  \<^item> a thrown exception is a value \<open>Inl e\<close> of a sum type;
  \<^item> the two closure variables \<^verbatim>\<open>_version\<close> and \<^verbatim>\<open>_migrations\<close> are the fields of a record
    that mutating methods return updated, also when they throw;
  \<^item> \<^verbatim>\<open>JSON.parse\<close>, \<^verbatim>\<open>JSON.stringify\<close> and the coercion of a string, array or object to a
    number belong to the JavaScript platform, not to the repository: they are fields of
    a record \<open>platform\<close> that the methods using them take as their first argument;
  \<^item> a migration function is a pure total function on values; to speak about which
    transforms an operation invokes, \<^verbatim>\<open>_applyMigrations\<close> also returns the list of the
    calls it made, each with the registry key, the argument and the value returned;
  \<^item> the two \<^verbatim>\<open>console.log\<close> calls of \<^verbatim>\<open>versionedDeserialize\<close> are not modelled.
\<close>

subsection \<open>Values, errors and the platform\<close>

text \<open>
  What \<^verbatim>\<open>JSON.parse\<close> can return, plus \<^verbatim>\<open>undefined\<close>, which reading an absent property
  yields. An object is the list of its properties, one entry for each key.
\<close>

datatype jsval =
    JUndefined
  | JNull
  | JBool bool
  | JNum int
  | JStr string
  | JArr "jsval list"
  | JObj "(string \<times> jsval) list"

text \<open>
  The exceptions. \<open>DecodeError\<close> is the \<^verbatim>\<open>SyntaxError\<close> of \<^verbatim>\<open>JSON.parse\<close>; \<open>TypeError\<close> is
  the one JavaScript raises on reading a property of \<^verbatim>\<open>null\<close> or on coercing an object that
  has no primitive value; the other three are the \<^verbatim>\<open>Error\<close>s the source throws itself,
  named after the message: "Cannot deserialize data from version ..." is
  \<open>FutureVersion\<close>, "Missing migration for version v" is \<open>MissingMigration v\<close> (\<open>v\<close> is the
  loop variable as the message prints it), and "Invalid migration: ..." is
  \<open>InvalidMigrationRange\<close>.
\<close>

datatype error =
    DecodeError
  | TypeError
  | FutureVersion
  | MissingMigration jsval
  | InvalidMigrationRange

type_synonym MigrationFn = "jsval \<Rightarrow> jsval"

text \<open>The result of coercing a value to a number: it throws, or gives NaN or a number.\<close>

datatype coerced = CoercionThrows | NotANumber | Number int

record platform =
  JSON_parse :: "string \<Rightarrow> jsval option"
  JSON_stringify :: "jsval \<Rightarrow> string"
  coerce_object :: "jsval \<Rightarrow> coerced"

text \<open>
  \<^verbatim>\<open>ToNumber\<close> of ECMAScript, as the relational operators apply it to an operand: fixed
  on \<^verbatim>\<open>undefined\<close>, \<^verbatim>\<open>null\<close>, booleans and numbers, and the platform's on strings, arrays
  and objects.
\<close>

fun ToNumber :: "platform \<Rightarrow> jsval \<Rightarrow> coerced" where
  "ToNumber P JUndefined = NotANumber"
| "ToNumber P JNull = Number 0"
| "ToNumber P (JBool b) = Number (if b then 1 else 0)"
| "ToNumber P (JNum n) = Number n"
| "ToNumber P v = coerce_object P v"

text \<open>
  Arithmetic on numbers. Between \<open>2 ^ 53\<close> and \<open>2 ^ 54\<close> the binary64 numbers are the even
  integers, between \<open>2 ^ 54\<close> and \<open>2 ^ 55\<close> the multiples of 4, and so on: \<open>ulp m\<close> is that
  spacing at the magnitude \<open>m\<close>. \<open>binary64 n\<close> rounds the integer \<open>n\<close> to the nearest
  multiple of the spacing, a tie going to the multiple with an even quotient
  (IEEE 754 round to nearest, ties to even). \<^verbatim>\<open>x - 1\<close> and \<^verbatim>\<open>x++\<close> are the exact results
  rounded.
\<close>

function ulp :: "nat \<Rightarrow> nat" where
  "ulp m = (if m < 2 ^ 53 then 1 else 2 * ulp (m div 2))"
  by pat_completeness auto
termination
  by (relation "measure id") auto

declare ulp.simps [simp del]

definition binary64 :: "int \<Rightarrow> int" where
  "binary64 n =
     (let u = int (ulp (nat \<bar>n\<bar>)); q = n div u; r = n mod u in
      if 2 * r < u then q * u
      else if 2 * r > u then (q + 1) * u
      else if even q then q * u else (q + 1) * u)"

definition js_minus_one :: "int \<Rightarrow> int" where
  "js_minus_one x = binary64 (x - 1)"

definition js_increment :: "int \<Rightarrow> int" where
  "js_increment x = binary64 (x + 1)"

text \<open>\<^verbatim>\<open>a > n\<close>, \<^verbatim>\<open>a < n\<close> and \<^verbatim>\<open>a === n\<close> for a number \<open>n\<close>; a comparison with NaN is false.\<close>

definition js_gt :: "platform \<Rightarrow> jsval \<Rightarrow> int \<Rightarrow> error + bool" where
  "js_gt P a n =
     (case ToNumber P a of
        CoercionThrows \<Rightarrow> Inl TypeError
      | NotANumber \<Rightarrow> Inr False
      | Number k \<Rightarrow> Inr (k > n))"

definition js_lt :: "platform \<Rightarrow> jsval \<Rightarrow> int \<Rightarrow> error + bool" where
  "js_lt P a n =
     (case ToNumber P a of
        CoercionThrows \<Rightarrow> Inl TypeError
      | NotANumber \<Rightarrow> Inr False
      | Number k \<Rightarrow> Inr (k < n))"

fun js_strict_eq :: "jsval \<Rightarrow> int \<Rightarrow> bool" where
  "js_strict_eq (JNum k) n = (k = n)"
| "js_strict_eq v n = False"

text \<open>
  Reading the property \<open>key\<close> of a parsed value (\<^verbatim>\<open>parsed.version\<close>, \<^verbatim>\<open>parsed.data\<close>):
  a \<^verbatim>\<open>TypeError\<close> on \<^verbatim>\<open>null\<close>, the property's value on an object that has it, and
  \<^verbatim>\<open>undefined\<close> otherwise (neither key is a property of a boolean, number, string or
  array).
\<close>

fun get_property :: "jsval \<Rightarrow> string \<Rightarrow> error + jsval" where
  "get_property JNull key = Inl TypeError"
| "get_property JUndefined key = Inl TypeError"
| "get_property (JObj props) key =
     (case map_of props key of None \<Rightarrow> Inr JUndefined | Some v \<Rightarrow> Inr v)"
| "get_property v key = Inr JUndefined"

subsection \<open>The codec state and its construction\<close>

record MigrationMetadata =
  toVersion :: int
  transform :: MigrationFn

text \<open>The closure variables \<^verbatim>\<open>_version\<close> and \<^verbatim>\<open>_migrations\<close> of \<^verbatim>\<open>createVersioned\<close>.\<close>

record codec =
  v_version :: int
  v_migrations :: "int \<rightharpoonup> MigrationFn"

text \<open>
  \<^verbatim>\<open>migrationMetadataMap\<close> is a store from decorated targets to the list of their
  declared migrations; the decorator \<^verbatim>\<open>Migration(toVersion, transform)\<close> appends one
  entry to the list of its target.
\<close>

type_synonym 't metadata_map = "'t \<rightharpoonup> MigrationMetadata list"

definition existingMigrations :: "'t metadata_map \<Rightarrow> 't \<Rightarrow> MigrationMetadata list" where
  "existingMigrations mm target = (case mm target of None \<Rightarrow> [] | Some ms \<Rightarrow> ms)"

definition Migration ::
  "int \<Rightarrow> MigrationFn \<Rightarrow> 't \<Rightarrow> 't metadata_map \<Rightarrow> 't metadata_map" where
  "Migration to_version fn target mm =
     mm(target \<mapsto> existingMigrations mm target @ [\<lparr>toVersion = to_version, transform = fn\<rparr>])"

text \<open>
  \<^verbatim>\<open>createVersioned(version, target?)\<close>: \<^verbatim>\<open>version || 1\<close> replaces 0 by 1; with a target,
  each of its declared migrations is stored under \<^verbatim>\<open>toVersion - 1\<close>, in order.
\<close>

definition createVersioned :: "'t metadata_map \<Rightarrow> int \<Rightarrow> 't option \<Rightarrow> codec" where
  "createVersioned mm version target =
     \<lparr> v_version = (if version = 0 then 1 else version),
       v_migrations =
         (case target of
            None \<Rightarrow> Map.empty
          | Some t \<Rightarrow>
              foldl (\<lambda>m md. m(js_minus_one (toVersion md) \<mapsto> transform md)) Map.empty
                (existingMigrations mm t)) \<rparr>"

subsection \<open>Registration\<close>

text \<open>
  \<^verbatim>\<open>migrations.toVersion(to).withTransform(fn)\<close>: the range check against the current
  \<^verbatim>\<open>_version\<close>, then \<^verbatim>\<open>_migrations.set(from, fn)\<close>.
\<close>

definition withTransform :: "int \<Rightarrow> MigrationFn \<Rightarrow> codec \<Rightarrow> (error + unit) \<times> codec" where
  "withTransform to fn c =
     (let from = js_minus_one to in
      if from \<ge> v_version c \<or> to > v_version c \<or> from < 1 \<or> to < 1
      then (Inl InvalidMigrationRange, c)
      else (Inr (), c\<lparr>v_migrations := (v_migrations c)(from \<mapsto> fn)\<rparr>))"

definition addMigration :: "int \<Rightarrow> MigrationFn \<Rightarrow> codec \<Rightarrow> (error + unit) \<times> codec" where
  "addMigration to_version migrationFn c = withTransform to_version migrationFn c"

definition setCurrentVersion :: "int \<Rightarrow> codec \<Rightarrow> codec" where
  "setCurrentVersion version c = c\<lparr>v_version := version\<rparr>"

subsection \<open>Serialization and deserialization\<close>

definition versionedSerialize :: "platform \<Rightarrow> codec \<Rightarrow> jsval \<Rightarrow> string" where
  "versionedSerialize P c data =
     JSON_stringify P (JObj [(''version'', JNum (v_version c)), (''data'', data)])"

text \<open>One invocation of a transform: the registry key, the argument, the value returned.\<close>

type_synonym call = "int \<times> jsval \<times> jsval"

text \<open>
  The \<^verbatim>\<open>for\<close> loop of \<^verbatim>\<open>_applyMigrations\<close> once the loop variable is a number:
  \<open>version\<close> is the loop variable, \<open>currentData\<close> the working payload, \<open>calls\<close> the
  invocations made so far. Where \<^verbatim>\<open>version++\<close> rounds back to \<open>version\<close> the loop does
  not advance, so the function is partial.
\<close>

partial_function (option) walk ::
  "codec \<Rightarrow> jsval \<Rightarrow> int \<Rightarrow> call list \<Rightarrow> ((error + jsval) \<times> call list) option" where
  "walk c currentData version calls =
     (if version < v_version c then
        (case v_migrations c version of
           None \<Rightarrow> Some (Inl (MissingMigration (JNum version)), calls)
         | Some migration \<Rightarrow>
             walk c (migration currentData) (js_increment version)
               (calls @ [(version, currentData, migration currentData)]))
      else Some (Inr currentData, calls))"

text \<open>
  \<^verbatim>\<open>_applyMigrations(data, toVersion)\<close>. The registry's keys are numbers, so when the
  loop variable starts as another kind of value and the loop test passes, the lookup
  finds nothing and the first iteration throws.
\<close>

definition applyMigrations ::
  "platform \<Rightarrow> codec \<Rightarrow> jsval \<Rightarrow> jsval \<Rightarrow> ((error + jsval) \<times> call list) option" where
  "applyMigrations P c data to_version =
     (case to_version of
        JNum n \<Rightarrow> walk c data n []
      | _ \<Rightarrow>
          (case js_lt P to_version (v_version c) of
             Inl e \<Rightarrow> Some (Inl e, [])
           | Inr True \<Rightarrow> Some (Inl (MissingMigration to_version), [])
           | Inr False \<Rightarrow> Some (Inr data, [])))"

definition versionedDeserialize ::
  "platform \<Rightarrow> codec \<Rightarrow> string \<Rightarrow> ((error + jsval) \<times> call list) option" where
  "versionedDeserialize P c json =
     (case JSON_parse P json of
        None \<Rightarrow> Some (Inl DecodeError, [])
      | Some parsed \<Rightarrow>
          (case get_property parsed ''version'' of
             Inl e \<Rightarrow> Some (Inl e, [])
           | Inr parsed_version \<Rightarrow>
               (case js_gt P parsed_version (v_version c) of
                  Inl e \<Rightarrow> Some (Inl e, [])
                | Inr True \<Rightarrow> Some (Inl FutureVersion, [])
                | Inr False \<Rightarrow>
                    if js_strict_eq parsed_version (v_version c)
                    then (case get_property parsed ''data'' of
                            Inl e \<Rightarrow> Some (Inl e, [])
                          | Inr parsed_data \<Rightarrow> Some (Inr parsed_data, []))
                    else (case get_property parsed ''data'' of
                            Inl e \<Rightarrow> Some (Inl e, [])
                          | Inr parsed_data \<Rightarrow>
                              applyMigrations P c parsed_data parsed_version))))"

subsection \<open>The envelope shape of the specification\<close>

text \<open>
  The shape the specification calls a well-formed envelope: a record with exactly the
  two fields \<^verbatim>\<open>version\<close>, a non-negative integer, and \<^verbatim>\<open>data\<close>. The source has no such
  test; the predicate only serves to state what the specification says about it.
\<close>

fun spec_well_formed_envelope :: "jsval \<Rightarrow> bool" where
  "spec_well_formed_envelope (JObj props) =
     (length props = 2 \<and>
      (case map_of props ''version'' of Some (JNum n) \<Rightarrow> 0 \<le> n | _ \<Rightarrow> False) \<and>
      map_of props ''data'' \<noteq> None)"
| "spec_well_formed_envelope v = False"

subsection \<open>Concrete codecs and inputs\<close>

text \<open>
  Two transforms that wrap their argument, so that the order of application shows in
  the result; a platform given by what \<^verbatim>\<open>JSON.parse\<close> returns on six JSON texts (it throws
  on every other string) and \<^verbatim>\<open>JSON.stringify\<close> as its inverse on these values; and codecs
  built with the operations above. No input below reaches \<open>coerce_object\<close>.
\<close>

definition example_1to2 :: MigrationFn where
  "example_1to2 d = JObj [(''v2'', d)]"

definition example_2to3 :: MigrationFn where
  "example_2to3 d = JObj [(''v3'', d)]"

definition example_inputs :: "(string \<times> jsval) list" where
  \<open>example_inputs =
     [(''{"version":1,"data":"a"}'', JObj [(''version'', JNum 1), (''data'', JStr ''a'')]),
      (''{"version":3,"data":"a"}'', JObj [(''version'', JNum 3), (''data'', JStr ''a'')]),
      (''{"version":5,"data":"a"}'', JObj [(''version'', JNum 5), (''data'', JStr ''a'')]),
      (''{"version":3,"data":1,"extra":true}'',
         JObj [(''version'', JNum 3), (''data'', JNum 1), (''extra'', JBool True)]),
      (''{"data":7}'', JObj [(''data'', JNum 7)]),
      (''{"version":9007199254740992,"data":"a"}'',
         JObj [(''version'', JNum 9007199254740992), (''data'', JStr ''a'')])]\<close>

definition example_platform :: platform where
  "example_platform =
     \<lparr> JSON_parse = map_of example_inputs,
       JSON_stringify =
         (\<lambda>v. case find (\<lambda>e. snd e = v) example_inputs of
                None \<Rightarrow> [] | Some e \<Rightarrow> fst e),
       coerce_object = (\<lambda>v. NotANumber) \<rparr>"

definition example_empty3 :: codec where
  "example_empty3 = createVersioned (Map.empty :: unit metadata_map) 3 None"

definition example_codec3 :: codec where
  "example_codec3 =
     snd (withTransform 3 example_2to3 (snd (withTransform 2 example_1to2 example_empty3)))"

definition example_only_2to3 :: codec where
  "example_only_2to3 = snd (withTransform 3 example_2to3 example_empty3)"

definition example_only_1to2 :: codec where
  "example_only_1to2 = snd (withTransform 2 example_1to2 example_empty3)"

text \<open>
  Codecs whose current version is above \<open>2 ^ 53 = 9007199254740992\<close>:
  \<^verbatim>\<open>createVersioned(9007199254740996)\<close>, \<^verbatim>\<open>createVersioned(9007199254740994)\<close>, and the
  latter after \<^verbatim>\<open>migrations.toVersion(9007199254740994).withTransform(...)\<close>.
\<close>

definition example_empty_96 :: codec where
  "example_empty_96 = createVersioned (Map.empty :: unit metadata_map) 9007199254740996 None"

definition example_empty_94 :: codec where
  "example_empty_94 = createVersioned (Map.empty :: unit metadata_map) 9007199254740994 None"

definition example_codec_94 :: codec where
  "example_codec_94 = snd (withTransform 9007199254740994 example_1to2 example_empty_94)"

text \<open>
  A decorated target \<open>''T''\<close> declaring migrations to versions 5 and 1, and a target
  \<open>''U''\<close> declaring one to version 9007199254740994.
\<close>

definition example_metadata :: "string metadata_map" where
  "example_metadata =
     Migration 9007199254740994 example_1to2 ''U''
       (Migration 1 example_1to2 ''T'' (Migration 5 example_2to3 ''T'' Map.empty))"

lemmas example_defs =
  example_platform_def example_inputs_def example_empty3_def example_codec3_def
  example_only_2to3_def example_only_1to2_def example_1to2_def example_2to3_def
  example_metadata_def example_empty_96_def example_empty_94_def example_codec_94_def
  createVersioned_def withTransform_def Migration_def existingMigrations_def

subsection \<open>Arithmetic on numbers up to \<open>2 ^ 53\<close> is exact\<close>

lemma ulp_small: "m < 2 ^ 53 \<Longrightarrow> ulp m = 1"
  by (simp add: ulp.simps)

lemma binary64_exact: "\<bar>n\<bar> \<le> 2 ^ 53 \<Longrightarrow> binary64 n = n"
proof (cases "\<bar>n\<bar> = 2 ^ 53")
  case True
  then have "nat \<bar>n\<bar> = 2 ^ 53" by simp
  then have "ulp (nat \<bar>n\<bar>) = 2" by (simp add: ulp.simps)
  moreover from True have "n = 9007199254740992 \<or> n = - 9007199254740992"
    by (simp add: abs_if split: if_splits)
  ultimately show ?thesis by (auto simp: binary64_def Let_def)
next
  case False
  assume "\<bar>n\<bar> \<le> 2 ^ 53"
  with False have "nat \<bar>n\<bar> < 2 ^ 53" by simp
  then have "ulp (nat \<bar>n\<bar>) = 1" by (rule ulp_small)
  then show ?thesis by (simp add: binary64_def Let_def)
qed

lemma js_increment_exact: "- (2 ^ 53) \<le> x \<Longrightarrow> x < 2 ^ 53 \<Longrightarrow> js_increment x = x + 1"
  by (simp add: js_increment_def binary64_exact)

lemma js_minus_one_exact: "- (2 ^ 53) < x \<Longrightarrow> x \<le> 2 ^ 53 \<Longrightarrow> js_minus_one x = x - 1"
  by (simp add: js_minus_one_def binary64_exact)

subsection \<open>Properties of the forward walk\<close>

lemma walk_step:
  "version < v_version c \<Longrightarrow> v_migrations c version = Some m \<Longrightarrow>
   walk c d version calls = walk c (m d) (js_increment version) (calls @ [(version, d, m d)])"
  by (subst walk.simps) simp

lemma walk_stop: "\<not> version < v_version c \<Longrightarrow> walk c d version calls = Some (Inr d, calls)"
  by (subst walk.simps) simp

lemma walk_gap:
  "version < v_version c \<Longrightarrow> v_migrations c version = None \<Longrightarrow>
   walk c d version calls = Some (Inl (MissingMigration (JNum version)), calls)"
  by (subst walk.simps) simp

text \<open>The loop never returns once \<^verbatim>\<open>version++\<close> no longer advances at a registered key.\<close>

lemma walk_stuck:
  assumes "version < v_version c" and "v_migrations c version \<noteq> None"
    and "js_increment version = version"
  shows "walk c d version calls = None"
proof (rule ccontr)
  assume "walk c d version calls \<noteq> None"
  then obtain y where y: "walk c d version calls = Some y" by auto
  have "\<not> (version < v_version c \<and> v_migrations c version \<noteq> None \<and>
           js_increment version = version)"
  proof (rule walk.raw_induct
      [where P = "\<lambda>c d version calls y. \<not> (version < v_version c \<and>
          v_migrations c version \<noteq> None \<and> js_increment version = version)", OF _ y],
      goal_cases)
    case (1 f c currentData version calls r)
    show ?case
    proof
      assume a: "version < v_version c \<and> v_migrations c version \<noteq> None \<and>
                 js_increment version = version"
      then obtain m where m: "v_migrations c version = Some m" by auto
      with a 1(2) have
        "f c (m currentData) version (calls @ [(version, currentData, m currentData)]) = Some r"
        by simp
      then show False using 1(1) a by blast
    qed
  qed
  with assms show False by simp
qed

text \<open>Up to \<open>2 ^ 53\<close> the loop returns, and only extends the list of calls.\<close>

lemma walk_returns:
  assumes "v_version c \<le> 2 ^ 53" and "- (2 ^ 53) \<le> sv"
  shows "\<exists>res tr. walk c d sv calls = Some (res, calls @ tr)"
  using assms(2)
proof (induction "nat (v_version c - sv)" arbitrary: sv d calls)
  case 0
  then have "\<not> sv < v_version c" by simp
  then show ?case by (simp add: walk_stop)
next
  case (Suc k)
  then have lt: "sv < v_version c" by simp
  show ?case
  proof (cases "v_migrations c sv")
    case None
    with lt show ?thesis by (simp add: walk_gap)
  next
    case (Some m)
    have inc: "js_increment sv = sv + 1"
      using lt assms(1) Suc.prems by (simp add: js_increment_exact)
    have "k = nat (v_version c - (sv + 1))" using Suc.hyps(2) by simp
    moreover have "- (2 ^ 53) \<le> sv + 1" using Suc.prems by simp
    ultimately obtain res tr where
      "walk c (m d) (sv + 1) (calls @ [(sv, d, m d)]) = Some (res, (calls @ [(sv, d, m d)]) @ tr)"
      using Suc.hyps(1) by blast
    then show ?thesis using lt Some inc by (simp add: walk_step)
  qed
qed

lemma walk_missing:
  assumes "v_version c \<le> 2 ^ 53" and "- (2 ^ 53) \<le> sv"
    and "sv \<le> v" and "v < v_version c" and "v_migrations c v = None"
    and "\<forall>u. sv \<le> u \<and> u < v \<longrightarrow> v_migrations c u \<noteq> None"
  shows "\<exists>tr. walk c d sv calls = Some (Inl (MissingMigration (JNum v)), calls @ tr) \<and>
              map fst tr = [sv..v - 1]"
  using assms(2,3,6)
proof (induction "nat (v - sv)" arbitrary: sv d calls)
  case 0
  then have "sv = v" by simp
  then show ?case using assms(4,5) by (simp add: walk_gap)
next
  case (Suc k)
  then have lt: "sv < v" by simp
  then have ltV: "sv < v_version c" using assms(4) by simp
  from lt Suc.prems obtain m where m: "v_migrations c sv = Some m" by auto
  have inc: "js_increment sv = sv + 1"
    using ltV assms(1) Suc.prems by (simp add: js_increment_exact)
  have "k = nat (v - (sv + 1))" using Suc.hyps(2) by simp
  moreover have "- (2 ^ 53) \<le> sv + 1" "sv + 1 \<le> v"
    "\<forall>u. sv + 1 \<le> u \<and> u < v \<longrightarrow> v_migrations c u \<noteq> None"
    using Suc.prems lt by simp_all
  ultimately obtain tr where tr:
    "walk c (m d) (sv + 1) (calls @ [(sv, d, m d)]) =
       Some (Inl (MissingMigration (JNum v)), (calls @ [(sv, d, m d)]) @ tr)"
    "map fst tr = [sv + 1..v - 1]"
    using Suc.hyps(1) by blast
  have "[sv..v - 1] = sv # [sv + 1..v - 1]"
    using lt by (simp add: upto_rec1)
  then have "map fst ((sv, d, m d) # tr) = [sv..v - 1]" using tr(2) by simp
  moreover have "walk c d sv calls =
      Some (Inl (MissingMigration (JNum v)), calls @ ((sv, d, m d) # tr))"
    using tr(1) ltV m inc by (simp add: walk_step)
  ultimately show ?case by blast
qed

text \<open>
  Up to \<open>2 ^ 53\<close>, a walk that starts at or below a registered key \<open>k\<close> and meets no gap
  before it returns, whether it then succeeds or fails at a later gap, and has called
  the transform registered at \<open>k\<close>.
\<close>

lemma walk_reaches:
  assumes "v_version c \<le> 2 ^ 53" and "- (2 ^ 53) \<le> sv"
    and "sv \<le> k" and "k < v_version c" and "v_migrations c k = Some g"
    and "\<forall>u. sv \<le> u \<and> u < k \<longrightarrow> v_migrations c u \<noteq> None"
  shows "\<exists>res tr x. walk c d sv calls = Some (res, tr) \<and> (k, x, g x) \<in> set tr"
  using assms(2,3,6)
proof (induction "nat (k - sv)" arbitrary: sv d calls)
  case 0
  then have eq: "sv = k" by simp
  have inc: "js_increment k = k + 1"
    using assms(1,4) "0.prems" eq by (simp add: js_increment_exact)
  have "- (2 ^ 53) \<le> k + 1" using "0.prems" eq by simp
  then obtain res tr where
    "walk c (g d) (k + 1) (calls @ [(k, d, g d)]) = Some (res, (calls @ [(k, d, g d)]) @ tr)"
    using walk_returns [OF assms(1)] by blast
  then have "walk c d sv calls = Some (res, calls @ (k, d, g d) # tr)"
    using eq assms(4,5) inc by (simp add: walk_step)
  moreover have "(k, d, g d) \<in> set (calls @ (k, d, g d) # tr)" by simp
  ultimately show ?case by blast
next
  case (Suc n)
  then have lt: "sv < k" by simp
  then have ltV: "sv < v_version c" using assms(4) by simp
  from lt Suc.prems obtain m where m: "v_migrations c sv = Some m" by auto
  have inc: "js_increment sv = sv + 1"
    using ltV assms(1) Suc.prems by (simp add: js_increment_exact)
  have "n = nat (k - (sv + 1))" using Suc.hyps(2) by simp
  moreover have "- (2 ^ 53) \<le> sv + 1" "sv + 1 \<le> k"
    "\<forall>u. sv + 1 \<le> u \<and> u < k \<longrightarrow> v_migrations c u \<noteq> None"
    using Suc.prems lt by simp_all
  ultimately obtain res tr x where
    "walk c (m d) (sv + 1) (calls @ [(sv, d, m d)]) = Some (res, tr)" "(k, x, g x) \<in> set tr"
    using Suc.hyps(1) by blast
  then show ?case using ltV m inc by (auto simp: walk_step)
qed

text \<open>Whenever the loop returns, each call it made was to the transform registered at its key.\<close>

lemma walk_calls_registered:
  assumes y: "walk c d sv calls = Some y"
    and calls: "\<forall>call \<in> set calls.
       \<exists>m. v_migrations c (fst call) = Some m \<and> snd (snd call) = m (fst (snd call))"
  shows "\<forall>call \<in> set (snd y).
       \<exists>m. v_migrations c (fst call) = Some m \<and> snd (snd call) = m (fst (snd call))"
proof -
  have "(\<forall>call \<in> set calls.
           \<exists>m. v_migrations c (fst call) = Some m \<and> snd (snd call) = m (fst (snd call))) \<longrightarrow>
        (\<forall>call \<in> set (snd y).
           \<exists>m. v_migrations c (fst call) = Some m \<and> snd (snd call) = m (fst (snd call)))"
  proof (rule walk.raw_induct
      [where P = "\<lambda>c d version calls y.
         (\<forall>call \<in> set calls.
           \<exists>m. v_migrations c (fst call) = Some m \<and> snd (snd call) = m (fst (snd call))) \<longrightarrow>
         (\<forall>call \<in> set (snd y).
           \<exists>m. v_migrations c (fst call) = Some m \<and> snd (snd call) = m (fst (snd call)))",
       OF _ y], goal_cases)
    case (1 f c currentData version calls r)
    show ?case
    proof (cases "version < v_version c")
      case False
      with 1(2) show ?thesis by auto
    next
      case True
      show ?thesis
      proof (cases "v_migrations c version")
        case None
        with True 1(2) show ?thesis by auto
      next
        case (Some m)
        with True 1(2) have
          "f c (m currentData) (js_increment version)
             (calls @ [(version, currentData, m currentData)]) = Some r"
          by simp
        from 1(1) [OF this] Some show ?thesis by auto
      qed
    qed
  qed
  with calls show ?thesis by blast
qed

lemma walk_not_DecodeError:
  assumes y: "walk c d sv calls = Some y"
  shows "fst y \<noteq> Inl DecodeError"
proof (rule walk.raw_induct
    [where P = "\<lambda>c d version calls y. fst y \<noteq> Inl DecodeError", OF _ y], goal_cases)
  case (1 f c currentData version calls r)
  show ?case
  proof (cases "version < v_version c")
    case False
    with 1(2) show ?thesis by auto
  next
    case True
    show ?thesis
    proof (cases "v_migrations c version")
      case None
      with True 1(2) show ?thesis by auto
    next
      case (Some m)
      with True 1(2) have
        "f c (m currentData) (js_increment version)
           (calls @ [(version, currentData, m currentData)]) = Some r"
        by simp
      then show ?thesis by (rule 1(1))
    qed
  qed
qed

lemma applyMigrations_JNum: "applyMigrations P c d (JNum n) = walk c d n []"
  by (simp add: applyMigrations_def)

lemma applyMigrations_not_DecodeError:
  "applyMigrations P c d v = Some y \<Longrightarrow> fst y \<noteq> Inl DecodeError"
  by (cases v)
     (auto simp: applyMigrations_def js_lt_def dest: walk_not_DecodeError
           split: sum.splits bool.splits coerced.splits)

lemma applyMigrations_calls_registered:
  assumes "applyMigrations P c d v = Some y"
  shows "\<forall>call \<in> set (snd y).
     \<exists>m. v_migrations c (fst call) = Some m \<and> snd (snd call) = m (fst (snd call))"
proof (cases v)
  case (JNum n)
  with assms have "walk c d n [] = Some y" by (simp add: applyMigrations_JNum)
  then show ?thesis by (rule walk_calls_registered) simp
qed (use assms in \<open>auto simp: applyMigrations_def split: sum.splits bool.splits\<close>)

lemma get_property_not_DecodeError: "get_property v k \<noteq> Inl DecodeError"
  by (cases v) (auto split: option.splits)

text \<open>Deserializing an envelope whose \<^verbatim>\<open>version\<close> is a number.\<close>

lemma versionedDeserialize_JNum:
  assumes "JSON_parse P json = Some parsed"
    and "get_property parsed ''version'' = Inr (JNum sv)"
    and "get_property parsed ''data'' = Inr d"
  shows "versionedDeserialize P c json =
     (if sv > v_version c then Some (Inl FutureVersion, [])
      else if sv = v_version c then Some (Inr d, [])
      else walk c d sv [])"
  using assms by (simp add: versionedDeserialize_def js_gt_def applyMigrations_JNum)

lemma versionedDeserialize_calls_registered:
  assumes "versionedDeserialize P c json = Some y"
  shows "\<forall>call \<in> set (snd y).
     \<exists>m. v_migrations c (fst call) = Some m \<and> snd (snd call) = m (fst (snd call))"
  using assms applyMigrations_calls_registered [of P c _ _ y]
  by (auto simp: versionedDeserialize_def split: option.splits sum.splits bool.splits if_splits)

lemma foldl_set_registry:
  "foldl (\<lambda>m md. m(js_minus_one (toVersion md) \<mapsto> transform md)) m0 ms =
   m0 ++ map_of (rev (map (\<lambda>md. (js_minus_one (toVersion md), transform md)) ms))"
  by (induction ms arbitrary: m0) (simp_all add: map_add_upd_left)

lemmas eval_defs = example_defs js_minus_one_exact js_increment_exact

subsection \<open>Deserialization\<close>

text \<open>
  C1 (sequential application). On a codec whose current version is 3, with a
  transform \<open>f12\<close> registered at version 1 and a transform \<open>f23\<close> at version 2,
  deserializing an envelope of version 1 with payload \<open>d\<close> returns \<open>f23 (f12 d)\<close>, and the
  transforms invoked are exactly two: the one at 1 on \<open>d\<close>, then the one at 2 on the
  result of the first.
\<close>

theorem sequential_application:
  assumes "v_version c = 3"
    and "v_migrations c 1 = Some f12"
    and "v_migrations c 2 = Some f23"
    and "JSON_parse P json = Some parsed"
    and "get_property parsed ''version'' = Inr (JNum 1)"
    and "get_property parsed ''data'' = Inr d"
  shows "versionedDeserialize P c json =
           Some (Inr (f23 (f12 d)), [(1, d, f12 d), (2, f12 d, f23 (f12 d))])"
proof -
  have "versionedDeserialize P c json = walk c d 1 []"
    using assms by (simp add: versionedDeserialize_JNum)
  also have "\<dots> = walk c (f12 d) 2 [(1, d, f12 d)]"
    using assms walk_step [of 1 c f12 d "[]"] by (simp add: js_increment_exact)
  also have "\<dots> = walk c (f23 (f12 d)) 3 [(1, d, f12 d), (2, f12 d, f23 (f12 d))]"
    using assms walk_step [of 2 c f23 "f12 d" "[(1, d, f12 d)]"]
    by (simp add: js_increment_exact)
  also have "\<dots> = Some (Inr (f23 (f12 d)), [(1, d, f12 d), (2, f12 d, f23 (f12 d))])"
    using assms by (simp add: walk_stop)
  finally show ?thesis .
qed

theorem sequential_application_witness:
  \<open>versionedDeserialize example_platform example_codec3 ''{"version":1,"data":"a"}'' =
     Some (Inr (JObj [(''v3'', JObj [(''v2'', JStr ''a'')])]),
      [(1, JStr ''a'', JObj [(''v2'', JStr ''a'')]),
       (2, JObj [(''v2'', JStr ''a'')], JObj [(''v3'', JObj [(''v2'', JStr ''a'')])])])\<close>
  using sequential_application [of example_codec3 example_1to2 example_2to3 example_platform
      \<open>''{"version":1,"data":"a"}''\<close> "JObj [(''version'', JNum 1), (''data'', JStr ''a'')]" "JStr ''a''"]
  by (simp add: eval_defs)

text \<open>
  Above \<open>2 ^ 53\<close> the first gap is not always reported. After
  \<^verbatim>\<open>createVersioned(9007199254740994)\<close> and
  \<^verbatim>\<open>migrations.toVersion(9007199254740994).withTransform(...)\<close> the registry holds a
  transform at 9007199254740992 and none at 9007199254740993. For an envelope stored
  at version 9007199254740992 the loop calls that transform, \<^verbatim>\<open>version++\<close> rounds back to
  9007199254740992, and the deserialization never returns: no \<open>MissingMigration\<close> is
  raised.
\<close>

theorem missing_migration_never_returns:
  \<open>v_version example_codec_94 = 9007199254740994 \<and>
   v_migrations example_codec_94 9007199254740992 = Some example_1to2 \<and>
   v_migrations example_codec_94 9007199254740993 = None \<and>
   JSON_parse example_platform ''{"version":9007199254740992,"data":"a"}'' =
     Some (JObj [(''version'', JNum 9007199254740992), (''data'', JStr ''a'')]) \<and>
   versionedDeserialize example_platform example_codec_94
     ''{"version":9007199254740992,"data":"a"}'' = None\<close>
proof -
  have k: "js_minus_one 9007199254740994 = 9007199254740992"
    by (simp add: js_minus_one_def binary64_def ulp.simps Let_def)
  have i: "js_increment 9007199254740992 = 9007199254740992"
    by (simp add: js_increment_def binary64_def ulp.simps Let_def)
  have v: "v_version example_codec_94 = 9007199254740994"
    by (simp add: example_defs k)
  have m: "v_migrations example_codec_94 9007199254740992 = Some example_1to2"
    by (simp add: example_codec_94_def example_empty_94_def createVersioned_def
          withTransform_def k)
  have n: "v_migrations example_codec_94 9007199254740993 = None"
    by (simp add: example_codec_94_def example_empty_94_def createVersioned_def
          withTransform_def k)
  have p: \<open>JSON_parse example_platform ''{"version":9007199254740992,"data":"a"}'' =
     Some (JObj [(''version'', JNum 9007199254740992), (''data'', JStr ''a'')])\<close>
    by (simp add: example_platform_def example_inputs_def)
  have \<open>versionedDeserialize example_platform example_codec_94
          ''{"version":9007199254740992,"data":"a"}'' =
        walk example_codec_94 (JStr ''a'') 9007199254740992 []\<close>
    using versionedDeserialize_JNum [OF p, of 9007199254740992 "JStr ''a''" example_codec_94] v
    by simp
  also have "\<dots> = None"
    by (rule walk_stuck) (simp_all add: v m i)
  finally show ?thesis using v m n p by simp
qed

text \<open>
  C2 (missing migration), as amended. On a codec whose current version is at most
  \<open>2 ^ 53\<close>, for a stored version \<open>sv\<close> of at least \<open>- (2 ^ 53)\<close> below the current version:
  when \<open>v\<close> is the smallest version from \<open>sv\<close> up to the current version minus one that
  has no registered transform, deserializing returns, and fails with
  \<open>MissingMigration v\<close>; the transforms invoked before the failure are those at
  \<open>sv, ..., v - 1\<close>, so none registered at \<open>v\<close> or above is invoked. With current version
  3, only the transform at 2 registered and stored version 1, the failure is
  \<open>MissingMigration 1\<close> and nothing is invoked.
\<close>

theorem missing_migration_first_gap:
  assumes "JSON_parse P json = Some parsed"
    and "get_property parsed ''version'' = Inr (JNum sv)"
    and "get_property parsed ''data'' = Inr d"
    and "v_version c \<le> 2 ^ 53" and "- (2 ^ 53) \<le> sv"
    and "sv \<le> v" and "v < v_version c"
    and "v_migrations c v = None"
    and "\<forall>u. sv \<le> u \<and> u < v \<longrightarrow> v_migrations c u \<noteq> None"
  shows "\<exists>calls. versionedDeserialize P c json = Some (Inl (MissingMigration (JNum v)), calls) \<and>
           map fst calls = [sv..v - 1] \<and> (\<forall>call \<in> set calls. fst call < v)"
proof -
  have w: "versionedDeserialize P c json = walk c d sv []"
    using assms by (simp add: versionedDeserialize_JNum)
  obtain tr where tr: "walk c d sv [] = Some (Inl (MissingMigration (JNum v)), tr)"
      "map fst tr = [sv..v - 1]"
    using walk_missing [OF assms(4-9), of d "[]"] by auto
  have "\<forall>k \<in> set (map fst tr). k < v"
    using tr(2) by simp
  then have "\<forall>call \<in> set tr. fst call < v"
    by simp
  with w tr show ?thesis by simp
qed

theorem missing_migration_first_gap_witness:
  \<open>versionedDeserialize example_platform example_only_1to2 ''{"version":1,"data":"a"}'' =
     Some (Inl (MissingMigration (JNum 2)), [(1, JStr ''a'', JObj [(''v2'', JStr ''a'')])]) \<and>
   versionedDeserialize example_platform example_only_2to3 ''{"version":1,"data":"a"}'' =
     Some (Inl (MissingMigration (JNum 1)), [])\<close>
proof -
  let ?json = \<open>''{"version":1,"data":"a"}''\<close>
  let ?parsed = "JObj [(''version'', JNum 1), (''data'', JStr ''a'')]"
  have p: "JSON_parse example_platform ?json = Some ?parsed"
    by (simp add: example_platform_def example_inputs_def)
  have a: "\<exists>calls. versionedDeserialize example_platform example_only_1to2 ?json =
             Some (Inl (MissingMigration (JNum 2)), calls) \<and>
           map fst calls = [1..2 - 1] \<and> (\<forall>call \<in> set calls. fst call < 2)"
    by (rule missing_migration_first_gap [OF p, of 1 "JStr ''a''"])
       (simp_all add: eval_defs)
  have b: "\<exists>calls. versionedDeserialize example_platform example_only_2to3 ?json =
             Some (Inl (MissingMigration (JNum 1)), calls) \<and>
           map fst calls = [1..1 - 1] \<and> (\<forall>call \<in> set calls. fst call < 1)"
    by (rule missing_migration_first_gap [OF p, of 1 "JStr ''a''"])
       (simp_all add: eval_defs)
  have c: "versionedDeserialize example_platform example_only_1to2 ?json =
             Some (Inl (MissingMigration (JNum 2)), [(1, JStr ''a'', JObj [(''v2'', JStr ''a'')])])"
    by (simp add: versionedDeserialize_def js_gt_def applyMigrations_def walk.simps eval_defs)
  from b have "versionedDeserialize example_platform example_only_2to3 ?json =
     Some (Inl (MissingMigration (JNum 1)), [])"
    by auto
  with a c show ?thesis by simp
qed

text \<open>
  C3 (future version). An envelope whose stored version is a number greater than the
  current version is rejected with \<open>FutureVersion\<close>, whatever the registry holds, and no
  transform is invoked.
\<close>

theorem future_version_rejected:
  assumes "JSON_parse P json = Some parsed"
    and "get_property parsed ''version'' = Inr (JNum sv)"
    and "sv > v_version c"
  shows "versionedDeserialize P (c\<lparr>v_migrations := registry\<rparr>) json =
           Some (Inl FutureVersion, [])"
  using assms by (simp add: versionedDeserialize_def js_gt_def)

theorem future_version_rejected_witness:
  \<open>versionedDeserialize example_platform (example_codec3\<lparr>v_migrations := Map.empty\<rparr>)
      ''{"version":5,"data":"a"}'' = Some (Inl FutureVersion, []) \<and>
   versionedDeserialize example_platform example_codec3
      ''{"version":5,"data":"a"}'' = Some (Inl FutureVersion, [])\<close>
  using future_version_rejected [of example_platform \<open>''{"version":5,"data":"a"}''\<close>
      "JObj [(''version'', JNum 5), (''data'', JStr ''a'')]" 5 example_codec3 Map.empty]
    future_version_rejected [of example_platform \<open>''{"version":5,"data":"a"}''\<close>
      "JObj [(''version'', JNum 5), (''data'', JStr ''a'')]" 5 example_codec3 "v_migrations example_codec3"]
  by (simp add: eval_defs)

text \<open>
  The specification's decode error on inputs that parse but do not have the envelope
  shape does not hold: an object with a third field, and an object without a
  \<^verbatim>\<open>version\<close>, are deserialized to their \<^verbatim>\<open>data\<close>.
\<close>

theorem malformed_envelope_accepted:
  \<open>JSON_parse example_platform ''{"version":3,"data":1,"extra":true}'' =
     Some (JObj [(''version'', JNum 3), (''data'', JNum 1), (''extra'', JBool True)]) \<and>
   \<not> spec_well_formed_envelope
       (JObj [(''version'', JNum 3), (''data'', JNum 1), (''extra'', JBool True)]) \<and>
   versionedDeserialize example_platform example_empty3 ''{"version":3,"data":1,"extra":true}'' =
     Some (Inr (JNum 1), []) \<and>
   JSON_parse example_platform ''{"data":7}'' = Some (JObj [(''data'', JNum 7)]) \<and>
   \<not> spec_well_formed_envelope (JObj [(''data'', JNum 7)]) \<and>
   versionedDeserialize example_platform example_empty3 ''{"data":7}'' = Some (Inr (JNum 7), [])\<close>
  by (simp add: versionedDeserialize_def js_gt_def js_lt_def applyMigrations_def example_defs)

text \<open>
  C4 (decode error), as amended. Deserializing fails with \<open>DecodeError\<close> exactly when
  \<^verbatim>\<open>JSON.parse\<close> rejects the input string, and then nothing is returned and no transform is
  invoked. An input that parses is not rejected for its shape: no test of the
  shape exists, and an object with a third field or without a \<^verbatim>\<open>version\<close> field is
  deserialized to its \<^verbatim>\<open>data\<close>, as shown above.
\<close>

theorem decode_error_iff_unparseable:
  "((\<exists>calls. versionedDeserialize P c json = Some (Inl DecodeError, calls)) \<longleftrightarrow>
      JSON_parse P json = None) \<and>
   (JSON_parse P json = None \<longrightarrow> versionedDeserialize P c json = Some (Inl DecodeError, []))"
proof -
  have a: "JSON_parse P json = None \<Longrightarrow> versionedDeserialize P c json = Some (Inl DecodeError, [])"
    by (simp add: versionedDeserialize_def)
  have b: "versionedDeserialize P c json \<noteq> Some (Inl DecodeError, calls)"
    if "JSON_parse P json = Some parsed" for parsed calls
    using that get_property_not_DecodeError [of parsed]
      applyMigrations_not_DecodeError [of P c _ _ "(Inl DecodeError, calls)"]
    by (auto simp: versionedDeserialize_def js_gt_def
             split: sum.splits bool.splits coerced.splits)
  show ?thesis using a b by (cases "JSON_parse P json") auto
qed

theorem decode_error_iff_unparseable_witness:
  \<open>versionedDeserialize example_platform example_codec3 ''{"data":'' = Some (Inl DecodeError, []) \<and>
   versionedDeserialize example_platform example_codec3 ''{"data":7}'' \<noteq> Some (Inl DecodeError, [])\<close>
  using decode_error_iff_unparseable [of example_platform example_codec3 \<open>''{"data":''\<close>]
    decode_error_iff_unparseable [of example_platform example_codec3 \<open>''{"data":7}''\<close>]
  by (simp add: example_platform_def example_inputs_def)

text \<open>
  C5 (fast path). When the stored version equals the current version, deserializing
  returns the envelope's payload unchanged and invokes no transform, whatever the
  registry holds.
\<close>

theorem fast_path:
  assumes "JSON_parse P json = Some parsed"
    and "get_property parsed ''version'' = Inr (JNum (v_version c))"
    and "get_property parsed ''data'' = Inr d"
  shows "versionedDeserialize P c json = Some (Inr d, [])"
  using assms by (simp add: versionedDeserialize_JNum)

theorem fast_path_witness:
  \<open>versionedDeserialize example_platform example_codec3 ''{"version":3,"data":"a"}'' =
     Some (Inr (JStr ''a''), []) \<and> v_migrations example_codec3 2 \<noteq> None\<close>
  using fast_path [of example_platform \<open>''{"version":3,"data":"a"}''\<close>
      "JObj [(''version'', JNum 3), (''data'', JStr ''a'')]" example_codec3 "JStr ''a''"]
  by (simp add: eval_defs)

text \<open>
  C6 (round trip). For a payload \<open>p\<close> whose envelope survives
  \<^verbatim>\<open>JSON.stringify\<close> followed by \<^verbatim>\<open>JSON.parse\<close>, deserializing the serialization of \<open>p\<close> on
  the same codec returns \<open>p\<close>, with no transform invoked.
\<close>

theorem round_trip:
  assumes "JSON_parse P (JSON_stringify P (JObj [(''version'', JNum (v_version c)), (''data'', p)]))
             = Some (JObj [(''version'', JNum (v_version c)), (''data'', p)])"
  shows "versionedDeserialize P c (versionedSerialize P c p) = Some (Inr p, [])"
proof -
  let ?env = "JObj [(''version'', JNum (v_version c)), (''data'', p)]"
  have "JSON_parse P (versionedSerialize P c p) = Some ?env"
    using assms by (simp add: versionedSerialize_def)
  moreover have "get_property ?env ''version'' = Inr (JNum (v_version c))" by simp
  moreover have "get_property ?env ''data'' = Inr p" by simp
  ultimately show ?thesis by (simp add: versionedDeserialize_JNum)
qed

theorem round_trip_witness:
  \<open>versionedSerialize example_platform example_codec3 (JStr ''a'') = ''{"version":3,"data":"a"}'' \<and>
   versionedDeserialize example_platform example_codec3
     (versionedSerialize example_platform example_codec3 (JStr ''a'')) = Some (Inr (JStr ''a''), [])\<close>
proof -
  have "versionedDeserialize example_platform example_codec3
     (versionedSerialize example_platform example_codec3 (JStr ''a'')) = Some (Inr (JStr ''a''), [])"
    by (rule round_trip) (simp add: eval_defs)
  moreover have \<open>versionedSerialize example_platform example_codec3 (JStr ''a'') = ''{"version":3,"data":"a"}''\<close>
    by (simp add: versionedSerialize_def eval_defs)
  ultimately show ?thesis by simp
qed

subsection \<open>Registration and construction\<close>

text \<open>
  Above \<open>2 ^ 53\<close> the bounds are not those of the specification. With current version
  9007199254740996, the source version 9007199254740995 is inside the bounds, but
  \<^verbatim>\<open>toVersion(9007199254740996)\<close> computes the source version 9007199254740996 and the
  registration fails. With current version 9007199254740994, registering for the source
  version 9007199254740993 succeeds but stores the transform under 9007199254740992.
\<close>

theorem registration_fails_above_2_53:
  "v_version example_empty_96 = 9007199254740996 \<and>
   \<not> (9007199254740995 < (1::int) \<or> 9007199254740995 \<ge> v_version example_empty_96 \<or>
      9007199254740995 + 1 < (1::int) \<or> 9007199254740995 + 1 > v_version example_empty_96) \<and>
   withTransform (9007199254740995 + 1) example_1to2 example_empty_96 =
     (Inl InvalidMigrationRange, example_empty_96) \<and>
   v_version example_empty_94 = 9007199254740994 \<and>
   withTransform (9007199254740993 + 1) example_1to2 example_empty_94 =
     (Inr (), example_empty_94
        \<lparr>v_migrations := (v_migrations example_empty_94)(9007199254740992 \<mapsto> example_1to2)\<rparr>)"
proof -
  have a: "js_minus_one 9007199254740996 = 9007199254740996"
    by (simp add: js_minus_one_def binary64_def ulp.simps Let_def)
  have b: "js_minus_one 9007199254740994 = 9007199254740992"
    by (simp add: js_minus_one_def binary64_def ulp.simps Let_def)
  show ?thesis
    by (simp add: example_empty_96_def example_empty_94_def createVersioned_def
          withTransform_def a b)
qed

text \<open>
  C7 (registration bounds), as amended. With a current version \<open>V\<close> of at most
  \<open>2 ^ 53\<close>, registering a transform for the source version \<open>fromVersion\<close>, that is
  \<^verbatim>\<open>toVersion(fromVersion + 1).withTransform(fn)\<close>, fails with \<open>InvalidMigrationRange\<close>
  exactly when \<open>fromVersion < 1\<close>, \<open>fromVersion \<ge> V\<close>, \<open>fromVersion + 1 < 1\<close> or
  \<open>fromVersion + 1 > V\<close>; otherwise it succeeds and stores the transform under
  \<open>fromVersion\<close>. A failed registration leaves the codec unchanged. With \<open>V = 3\<close>, source
  versions 3 and 0 fail and source version 2 succeeds.
\<close>

theorem registration_bounds:
  assumes "v_version c \<le> 2 ^ 53"
  shows
  "(fst (withTransform (fromVersion + 1) fn c) = Inl InvalidMigrationRange \<longleftrightarrow>
      fromVersion < 1 \<or> fromVersion \<ge> v_version c \<or>
      fromVersion + 1 < 1 \<or> fromVersion + 1 > v_version c) \<and>
   (\<not> (fromVersion < 1 \<or> fromVersion \<ge> v_version c \<or>
        fromVersion + 1 < 1 \<or> fromVersion + 1 > v_version c) \<longrightarrow>
      withTransform (fromVersion + 1) fn c =
        (Inr (), c\<lparr>v_migrations := (v_migrations c)(fromVersion \<mapsto> fn)\<rparr>)) \<and>
   (fst (withTransform (fromVersion + 1) fn c) = Inl InvalidMigrationRange \<longrightarrow>
      snd (withTransform (fromVersion + 1) fn c) = c)"
proof (cases "0 \<le> fromVersion \<and> fromVersion < v_version c")
  case True
  then have "js_minus_one (fromVersion + 1) = fromVersion"
    using assms by (simp add: js_minus_one_exact)
  then show ?thesis by (simp add: withTransform_def)
next
  case False
  then have "fromVersion + 1 < 1 \<or> fromVersion + 1 > v_version c" by auto
  then show ?thesis by (auto simp: withTransform_def)
qed

theorem registration_bounds_witness:
  "withTransform (3 + 1) example_2to3 example_empty3 = (Inl InvalidMigrationRange, example_empty3) \<and>
   withTransform (0 + 1) example_2to3 example_empty3 = (Inl InvalidMigrationRange, example_empty3) \<and>
   withTransform (2 + 1) example_2to3 example_empty3 =
     (Inr (), example_empty3\<lparr>v_migrations := (v_migrations example_empty3)(2 \<mapsto> example_2to3)\<rparr>)"
proof -
  have v: "v_version example_empty3 = 3"
    by (simp add: example_empty3_def createVersioned_def)
  then have le: "v_version example_empty3 \<le> 2 ^ 53" by simp
  show ?thesis
    using registration_bounds [OF le, of 3 example_2to3]
      registration_bounds [OF le, of 0 example_2to3]
      registration_bounds [OF le, of 2 example_2to3] v
    by (simp add: prod_eq_iff)
qed

text \<open>
  Above \<open>2 ^ 53\<close> a source version between 1 and the current version minus one need
  not be registrable: with current version 9007199254740996 and source version
  9007199254740995, the first registration fails and leaves the codec as it was, the
  second fails too, and the registry holds nothing at that version.
\<close>

theorem registration_lost_above_2_53:
  "1 \<le> (9007199254740995::int) \<and> 9007199254740995 < v_version example_empty_96 \<and>
   withTransform (9007199254740995 + 1) example_2to3
     (snd (withTransform (9007199254740995 + 1) example_1to2 example_empty_96)) =
     (Inl InvalidMigrationRange, example_empty_96) \<and>
   v_migrations example_empty_96 9007199254740995 = None"
proof -
  have a: "js_minus_one 9007199254740996 = 9007199254740996"
    by (simp add: js_minus_one_def binary64_def ulp.simps Let_def)
  show ?thesis
    by (simp add: example_empty_96_def createVersioned_def withTransform_def a)
qed

text \<open>
  C8 (last write wins), as amended. With a current version \<open>V\<close> of at most \<open>2 ^ 53\<close>
  and a source version from 1 to \<open>V - 1\<close>, registering \<open>f\<close> and then \<open>g\<close> there both
  succeed and leave the codec exactly as registering \<open>g\<close> alone does: the registry holds
  \<open>g\<close> at that version and nothing of \<open>f\<close>. In a later deserialization that returns,
  every call made at that version returns \<open>g\<close> of its argument. And a deserialization
  of an envelope stored at or below that version (and at least \<open>- (2 ^ 53)\<close>), with no
  gap in the registry before that version, returns and has made such a call, whether
  it succeeds or fails at a later gap.
\<close>

theorem last_write_wins:
  assumes "v_version c \<le> 2 ^ 53" and "1 \<le> fromVersion" and "fromVersion < v_version c"
  shows "fst (withTransform (fromVersion + 1) f c) = Inr () \<and>
         withTransform (fromVersion + 1) g (snd (withTransform (fromVersion + 1) f c)) =
           (Inr (), c\<lparr>v_migrations := (v_migrations c)(fromVersion \<mapsto> g)\<rparr>) \<and>
         withTransform (fromVersion + 1) g (snd (withTransform (fromVersion + 1) f c)) =
           withTransform (fromVersion + 1) g c \<and>
         (\<forall>y. versionedDeserialize P
               (snd (withTransform (fromVersion + 1) g (snd (withTransform (fromVersion + 1) f c))))
               json = Some y \<longrightarrow>
            (\<forall>call \<in> set (snd y).
               fst call = fromVersion \<longrightarrow> snd (snd call) = g (fst (snd call)))) \<and>
         (\<forall>parsed sv d.
            JSON_parse P json = Some parsed \<and>
            get_property parsed ''version'' = Inr (JNum sv) \<and>
            get_property parsed ''data'' = Inr d \<and>
            - (2 ^ 53) \<le> sv \<and> sv \<le> fromVersion \<and>
            (\<forall>u. sv \<le> u \<and> u < fromVersion \<longrightarrow> v_migrations c u \<noteq> None) \<longrightarrow>
            (\<exists>res tr x.
               versionedDeserialize P
                 (snd (withTransform (fromVersion + 1) g (snd (withTransform (fromVersion + 1) f c))))
                 json = Some (res, tr) \<and>
               (fromVersion, x, g x) \<in> set tr))"
proof -
  let ?c' = "c\<lparr>v_migrations := (v_migrations c)(fromVersion \<mapsto> g)\<rparr>"
  have k: "js_minus_one (fromVersion + 1) = fromVersion"
    using assms by (simp add: js_minus_one_exact)
  have 1: "fst (withTransform (fromVersion + 1) f c) = Inr ()"
    using assms by (simp add: withTransform_def k)
  have 2: "withTransform (fromVersion + 1) g (snd (withTransform (fromVersion + 1) f c)) = (Inr (), ?c')"
    using assms by (simp add: withTransform_def k)
  have 3: "withTransform (fromVersion + 1) g c = (Inr (), ?c')"
    using assms by (simp add: withTransform_def k)
  have 4: "\<forall>call \<in> set (snd y). fst call = fromVersion \<longrightarrow> snd (snd call) = g (fst (snd call))"
    if "versionedDeserialize P ?c' json = Some y" for y
    using versionedDeserialize_calls_registered [OF that] by auto
  have 5: "\<exists>res tr x. versionedDeserialize P ?c' json = Some (res, tr) \<and>
             (fromVersion, x, g x) \<in> set tr"
    if p: "JSON_parse P json = Some parsed" "get_property parsed ''version'' = Inr (JNum sv)"
      "get_property parsed ''data'' = Inr d"
      and sv: "- (2 ^ 53) \<le> sv" "sv \<le> fromVersion"
      and reg: "\<forall>u. sv \<le> u \<and> u < fromVersion \<longrightarrow> v_migrations c u \<noteq> None"
    for parsed sv d
  proof -
    have w: "versionedDeserialize P ?c' json = walk ?c' d sv []"
      using p sv assms by (simp add: versionedDeserialize_JNum)
    show ?thesis
      unfolding w
      by (rule walk_reaches [of ?c' sv fromVersion g d "[]"]) (use sv reg assms in simp_all)
  qed
  show ?thesis unfolding 2 3 using 1 4 5 by (simp only: snd_conv) blast
qed

theorem last_write_wins_witness:
  \<open>withTransform (1 + 1) example_1to2 (snd (withTransform (1 + 1) example_2to3 example_empty3)) =
     (Inr (), example_empty3\<lparr>v_migrations := (v_migrations example_empty3)(1 \<mapsto> example_1to2)\<rparr>) \<and>
   versionedDeserialize example_platform
     (snd (withTransform (1 + 1) example_1to2
       (snd (withTransform (1 + 1) example_2to3 example_empty3))))
     ''{"version":1,"data":"a"}'' =
     Some (Inl (MissingMigration (JNum 2)), [(1, JStr ''a'', JObj [(''v2'', JStr ''a'')])])\<close>
proof -
  have v: "v_version example_empty3 = 3"
    by (simp add: example_defs)
  have m: "v_migrations example_empty3 2 = None"
    by (simp add: example_empty3_def createVersioned_def)
  have r: "withTransform (1 + 1) example_1to2
             (snd (withTransform (1 + 1) example_2to3 example_empty3)) =
           (Inr (), example_empty3\<lparr>v_migrations := (v_migrations example_empty3)(1 \<mapsto> example_1to2)\<rparr>)"
    using last_write_wins [of example_empty3 1 example_2to3 example_1to2] v by simp
  show ?thesis
    unfolding r using v m
    by (simp add: versionedDeserialize_def js_gt_def applyMigrations_def walk.simps
          example_platform_def example_inputs_def example_1to2_def js_increment_exact)
qed

text \<open>
  Above \<open>2 ^ 53\<close>, \<open>addMigration V f\<close> can fail on a codec whose current version is
  \<open>V \<ge> 2\<close>: with \<open>V = 9007199254740996\<close>, \<^verbatim>\<open>to - 1\<close> rounds back to \<open>V\<close>.
\<close>

theorem addMigration_fails_above_2_53:
  "2 \<le> v_version example_empty_96 \<and>
   addMigration (v_version example_empty_96) example_1to2 example_empty_96 =
     (Inl InvalidMigrationRange, example_empty_96)"
proof -
  have a: "js_minus_one 9007199254740996 = 9007199254740996"
    by (simp add: js_minus_one_def binary64_def ulp.simps Let_def)
  show ?thesis
    by (simp add: addMigration_def example_empty_96_def createVersioned_def withTransform_def a)
qed

text \<open>
  C9 (\<^verbatim>\<open>addMigration\<close> takes the target version), as amended. \<open>addMigration n f\<close> is
  \<^verbatim>\<open>migrations.toVersion(n).withTransform(f)\<close>; when it does not succeed it fails with
  \<open>InvalidMigrationRange\<close> and changes nothing, and \<open>addMigration 1 f\<close> always fails. With
  a current version \<open>V\<close> of at most \<open>2 ^ 53\<close>: when it succeeds it stores \<open>f\<close> under the key
  \<open>n - 1\<close>, and if \<open>V \<ge> 2\<close>, \<open>addMigration V f\<close> succeeds and registers \<open>f\<close> at the source
  version \<open>V - 1\<close>.
\<close>

theorem addMigration_takes_target_version:
  "addMigration n f c = withTransform n f c \<and>
   (fst (addMigration n f c) \<noteq> Inr () \<longrightarrow>
      addMigration n f c = (Inl InvalidMigrationRange, c)) \<and>
   addMigration 1 f c = (Inl InvalidMigrationRange, c) \<and>
   (v_version c \<le> 2 ^ 53 \<longrightarrow>
      (fst (addMigration n f c) = Inr () \<longrightarrow>
         snd (addMigration n f c) = c\<lparr>v_migrations := (v_migrations c)(n - 1 \<mapsto> f)\<rparr>) \<and>
      (2 \<le> v_version c \<longrightarrow>
         addMigration (v_version c) f c =
           (Inr (), c\<lparr>v_migrations := (v_migrations c)(v_version c - 1 \<mapsto> f)\<rparr>)))"
proof -
  have one: "js_minus_one 1 = 0"
    by (simp add: js_minus_one_exact)
  have key: "js_minus_one n = n - 1" if "v_version c \<le> 2 ^ 53" "fst (withTransform n f c) = Inr ()"
  proof -
    from that(2) have "1 \<le> n \<and> n \<le> v_version c"
      by (auto simp: withTransform_def Let_def split: if_splits)
    with that(1) show ?thesis by (simp add: js_minus_one_exact)
  qed
  have top: "js_minus_one (v_version c) = v_version c - 1"
    if "v_version c \<le> 2 ^ 53" "2 \<le> v_version c"
    using that by (simp add: js_minus_one_exact)
  have a: "fst (withTransform n f c) = Inr () \<Longrightarrow>
      snd (withTransform n f c) = c\<lparr>v_migrations := (v_migrations c)(js_minus_one n \<mapsto> f)\<rparr>"
    by (auto simp: withTransform_def Let_def split: if_splits)
  have b: "fst (withTransform n f c) \<noteq> Inr () \<Longrightarrow>
      withTransform n f c = (Inl InvalidMigrationRange, c)"
    by (auto simp: withTransform_def Let_def split: if_splits)
  have c1: "withTransform 1 f c = (Inl InvalidMigrationRange, c)"
    by (simp add: withTransform_def one)
  have d: "withTransform (v_version c) f c =
           (Inr (), c\<lparr>v_migrations := (v_migrations c)(v_version c - 1 \<mapsto> f)\<rparr>)"
    if "v_version c \<le> 2 ^ 53" "2 \<le> v_version c"
    using that top by (simp add: withTransform_def)
  show ?thesis
    unfolding addMigration_def using a b c1 d key by (auto simp del: One_nat_def)
qed

theorem addMigration_takes_target_version_witness:
  "addMigration 3 example_2to3 example_empty3 =
     (Inr (), example_empty3\<lparr>v_migrations := (v_migrations example_empty3)(2 \<mapsto> example_2to3)\<rparr>) \<and>
   addMigration 1 example_1to2 example_empty3 = (Inl InvalidMigrationRange, example_empty3) \<and>
   addMigration 4 example_1to2 example_empty3 = (Inl InvalidMigrationRange, example_empty3)"
proof -
  note T = addMigration_takes_target_version
  have v: "v_version example_empty3 = 3"
    by (simp add: example_empty3_def createVersioned_def)
  have a: "addMigration 3 example_2to3 example_empty3 =
     (Inr (), example_empty3\<lparr>v_migrations := (v_migrations example_empty3)(2 \<mapsto> example_2to3)\<rparr>)"
    using T [of 3 example_2to3 example_empty3, THEN conjunct2, THEN conjunct2, THEN conjunct2] v
    by simp
  have b: "addMigration 1 example_1to2 example_empty3 = (Inl InvalidMigrationRange, example_empty3)"
    using T [of 3 example_1to2 example_empty3, THEN conjunct2, THEN conjunct2, THEN conjunct1] .
  have "fst (addMigration 4 example_1to2 example_empty3) \<noteq> Inr ()"
    using v by (simp add: addMigration_def withTransform_def)
  then have c: "addMigration 4 example_1to2 example_empty3 = (Inl InvalidMigrationRange, example_empty3)"
    using T [of 4 example_1to2 example_empty3, THEN conjunct2, THEN conjunct1]
    by blast
  show ?thesis using a b c by blast
qed

text \<open>
  Above \<open>2 ^ 53\<close> the key is not always the integer \<open>toVersion - 1\<close>: a migration declared
  to version 9007199254740994 is stored under 9007199254740992, and the registry holds
  nothing at 9007199254740993.
\<close>

theorem createVersioned_key_rounds_above_2_53:
  "existingMigrations example_metadata ''U'' =
     [\<lparr>toVersion = 9007199254740994, transform = example_1to2\<rparr>] \<and>
   v_migrations (createVersioned example_metadata 9007199254740996 (Some ''U''))
     (9007199254740994 - 1) = None \<and>
   v_migrations (createVersioned example_metadata 9007199254740996 (Some ''U''))
     9007199254740992 = Some example_1to2"
proof -
  have b: "js_minus_one 9007199254740994 = 9007199254740992"
    by (simp add: js_minus_one_def binary64_def ulp.simps Let_def)
  show ?thesis
    by (simp add: example_metadata_def Migration_def existingMigrations_def createVersioned_def b)
qed

text \<open>
  C10 (construction skips the range check), as amended.
  \<^verbatim>\<open>createVersioned(V, target)\<close> stores every migration declared on the target under the
  key that \<^verbatim>\<open>toVersion - 1\<close> evaluates to, a later declaration for the same key replacing
  an earlier one, with no range check. That key is the integer \<open>toVersion - 1\<close> whenever
  its magnitude is at most \<open>2 ^ 53\<close>. Each declared migration has its key in the
  registry, also when \<open>toVersion\<close> is above the current version or at most 1, where the
  same registration through \<^verbatim>\<open>toVersion(...).withTransform(...)\<close> fails with
  \<open>InvalidMigrationRange\<close>.
\<close>

theorem createVersioned_skips_range_check:
  "v_migrations (createVersioned mm V (Some t)) =
     map_of (rev (map (\<lambda>md. (js_minus_one (toVersion md), transform md))
                    (existingMigrations mm t))) \<and>
   (\<forall>md \<in> set (existingMigrations mm t).
      v_migrations (createVersioned mm V (Some t)) (js_minus_one (toVersion md)) \<noteq> None \<and>
      (\<bar>toVersion md - 1\<bar> \<le> 2 ^ 53 \<longrightarrow>
         v_migrations (createVersioned mm V (Some t)) (toVersion md - 1) \<noteq> None) \<and>
      (toVersion md > v_version (createVersioned mm V (Some t)) \<or> toVersion md \<le> 1 \<longrightarrow>
         withTransform (toVersion md) (transform md) (createVersioned mm V None) =
           (Inl InvalidMigrationRange, createVersioned mm V None)))"
proof -
  let ?kvs = "map (\<lambda>md. (js_minus_one (toVersion md), transform md)) (existingMigrations mm t)"
  have reg: "v_migrations (createVersioned mm V (Some t)) = map_of (rev ?kvs)"
    by (simp add: createVersioned_def foldl_set_registry)
  have "js_minus_one (toVersion md) \<in> fst ` set (rev ?kvs)"
    if "md \<in> set (existingMigrations mm t)" for md :: MigrationMetadata
    using that by force
  then have dom: "map_of (rev ?kvs) (js_minus_one (toVersion md)) \<noteq> None"
    if "md \<in> set (existingMigrations mm t)" for md :: MigrationMetadata
    using that by (simp only: map_of_eq_None_iff not_not)
  have chk: "withTransform (toVersion md) (transform md) (createVersioned mm V None) =
           (Inl InvalidMigrationRange, createVersioned mm V None)"
    if "toVersion md > v_version (createVersioned mm V (Some t)) \<or> toVersion md \<le> 1"
    for md :: MigrationMetadata
  proof (cases "toVersion md = 1")
    case True
    then show ?thesis by (simp add: withTransform_def js_minus_one_exact)
  next
    case False
    with that show ?thesis by (auto simp: withTransform_def createVersioned_def)
  qed
  show ?thesis
  proof (intro conjI ballI impI)
    show "v_migrations (createVersioned mm V (Some t)) = map_of (rev ?kvs)"
      by (rule reg)
  next
    fix md :: MigrationMetadata
    assume "md \<in> set (existingMigrations mm t)"
    then have "map_of (rev ?kvs) (js_minus_one (toVersion md)) \<noteq> None"
      by (rule dom)
    then show "v_migrations (createVersioned mm V (Some t)) (js_minus_one (toVersion md)) \<noteq> None"
      unfolding reg .
  next
    fix md :: MigrationMetadata
    assume md: "md \<in> set (existingMigrations mm t)" and "\<bar>toVersion md - 1\<bar> \<le> 2 ^ 53"
    then have "js_minus_one (toVersion md) = toVersion md - 1"
      by (simp add: js_minus_one_def binary64_exact)
    moreover have "map_of (rev ?kvs) (js_minus_one (toVersion md)) \<noteq> None"
      using md by (rule dom)
    ultimately show "v_migrations (createVersioned mm V (Some t)) (toVersion md - 1) \<noteq> None"
      unfolding reg by simp
  next
    fix md :: MigrationMetadata
    assume "toVersion md > v_version (createVersioned mm V (Some t)) \<or> toVersion md \<le> 1"
    then show "withTransform (toVersion md) (transform md) (createVersioned mm V None) =
           (Inl InvalidMigrationRange, createVersioned mm V None)"
      by (rule chk)
  qed
qed

theorem createVersioned_skips_range_check_witness:
  "v_version (createVersioned example_metadata 3 (Some ''T'')) = 3 \<and>
   v_migrations (createVersioned example_metadata 3 (Some ''T'')) 4 = Some example_2to3 \<and>
   v_migrations (createVersioned example_metadata 3 (Some ''T'')) 0 = Some example_1to2 \<and>
   fst (withTransform 5 example_2to3 (createVersioned example_metadata 3 None)) =
     Inl InvalidMigrationRange \<and>
   fst (withTransform 1 example_1to2 (createVersioned example_metadata 3 None)) =
     Inl InvalidMigrationRange"
proof -
  have e: "existingMigrations example_metadata ''T'' =
     [\<lparr>toVersion = 5, transform = example_2to3\<rparr>, \<lparr>toVersion = 1, transform = example_1to2\<rparr>]"
    by (simp add: example_metadata_def Migration_def existingMigrations_def)
  have v: "v_version (createVersioned example_metadata 3 (Some ''T'')) = 3"
    by (simp add: createVersioned_def)
  show ?thesis
    using createVersioned_skips_range_check [of example_metadata 3 "''T''"] v
    by (simp add: e js_minus_one_exact)
qed

end
